theory Spec2Isabelle
  imports Main
begin

section \<open>Python values and exceptions\<close>

text \<open>
  The handlers of \<^verbatim>\<open>metaagent.py\<close> exchange dictionaries of plain Python values.
  \<open>PObj c fs\<close> stands for any other object (a DataFrame, a DiGraph, a path, a
  set, a numpy scalar): its class name and the values it was built from. A dictionary
  is an association list, in insertion order; \<open>map_of\<close> reads it.
\<close>

datatype pyval =
    PNone
  | PBool bool
  | PInt int
  | PStr string
  | PList "pyval list"
  | PDict "(pyval \<times> pyval) list"
  | PObj string "pyval list"

type_synonym pydict = "(pyval \<times> pyval) list"

text \<open>
  An exception is its class and its string form \<open>str(e)\<close>. Every value of
  \<open>exn\<close> is an instance of Python's \<open>Exception\<close>, so \<^verbatim>\<open>except Exception\<close>
  catches all of them; \<open>KeyboardInterrupt\<close> and \<open>SystemExit\<close>, which are
  not, are signals to the process and have no place in this model. The only classes
  the source tells apart are the two named in its inner \<^verbatim>\<open>except\<close> clause;
  \<open>OtherException c\<close> is an exception of a class \<open>c\<close> that derives from
  neither of them.
\<close>

datatype exc_class = JSONDecodeError | TypeError | ValueError | OtherException string

datatype exn = Exn (exc_class_of: exc_class) (exc_str: string)

text \<open>\<^verbatim>\<open>d.get(k, None)\<close> for a string key.\<close>

definition py_get :: "pydict \<Rightarrow> string \<Rightarrow> pyval" where
  "py_get d k = (case map_of d (PStr k) of None \<Rightarrow> PNone | Some v \<Rightarrow> v)"

fun type_name :: "pyval \<Rightarrow> string" where
  "type_name PNone = ''NoneType''"
| "type_name (PBool b) = ''bool''"
| "type_name (PInt i) = ''int''"
| "type_name (PStr s) = ''str''"
| "type_name (PList xs) = ''list''"
| "type_name (PDict kvs) = ''dict''"
| "type_name (PObj c fs) = c"

section \<open>The libraries\<close>

text \<open>
  \<^verbatim>\<open>json\<close>, \<^verbatim>\<open>pathlib\<close>, \<^verbatim>\<open>pandas\<close>, \<^verbatim>\<open>networkx\<close> and \<^verbatim>\<open>dowhy\<close>
  are not part of the source. Each call the source makes into them is a field of the
  record below: a function of the call's arguments that returns a value or raises.
  The theorems hold for every such record.
  \<^item> \<open>json_loads\<close>, \<open>json_dumps\<close>: \<^verbatim>\<open>json.loads(s)\<close>, \<^verbatim>\<open>json.dumps(v)\<close>;
  \<^item> \<open>Path\<close>, \<open>path_exists\<close>: \<^verbatim>\<open>pathlib.Path(s)\<close>, \<^verbatim>\<open>p.exists()\<close>;
  \<^item> \<open>read_csv\<close>: \<^verbatim>\<open>pd.read_csv(p)\<close>; \<open>DiGraph\<close>: \<^verbatim>\<open>nx.DiGraph(edges)\<close>;
  \<^item> \<open>CausalModel\<close>: \<^verbatim>\<open>CausalModel(data, graph, treatment, outcome)\<close>;
  \<^item> \<open>identify_effect\<close>: \<^verbatim>\<open>model.identify_effect(proceed_when_unidentified)\<close>;
  \<^item> \<open>estimate_effect\<close>: \<^verbatim>\<open>model.estimate_effect(estimand, method_name,
    control_value, treatment_value)\<close>;
  \<^item> \<open>estimate_value\<close>, \<open>estimate_str\<close>: \<^verbatim>\<open>estimate.value\<close>, \<^verbatim>\<open>str(estimate)\<close>;
  \<^item> \<open>iter_object\<close>: the elements a \<^verbatim>\<open>for\<close> loop draws from an object that is
    none of the built-in values;
  \<^item> \<open>format_object\<close>: the text an f-string puts for a value that is not a string;
  \<^item> \<open>print_line\<close>: \<^verbatim>\<open>print(line)\<close>, which returns nothing or raises (a closed
    stream, a character the stream cannot encode). What it writes is not part of what
    a handler returns and is not kept.
\<close>

record env =
  json_loads :: "pyval \<Rightarrow> exn + pyval"
  json_dumps :: "pyval \<Rightarrow> exn + string"
  Path :: "pyval \<Rightarrow> exn + pyval"
  path_exists :: "pyval \<Rightarrow> exn + bool"
  read_csv :: "pyval \<Rightarrow> exn + pyval"
  DiGraph :: "pyval \<Rightarrow> exn + pyval"
  CausalModel :: "pyval \<Rightarrow> pyval \<Rightarrow> pyval \<Rightarrow> pyval \<Rightarrow> exn + pyval"
  identify_effect :: "pyval \<Rightarrow> pyval \<Rightarrow> exn + pyval"
  estimate_effect :: "pyval \<Rightarrow> pyval \<Rightarrow> pyval \<Rightarrow> pyval \<Rightarrow> pyval \<Rightarrow> exn + pyval"
  estimate_value :: "pyval \<Rightarrow> exn + pyval"
  estimate_str :: "pyval \<Rightarrow> exn + string"
  iter_object :: "pyval \<Rightarrow> exn + pyval list"
  format_object :: "pyval \<Rightarrow> exn + string"
  print_line :: "string \<Rightarrow> exn + unit"

text \<open>
  What \<^verbatim>\<open>for x in v\<close> iterates over: the elements of a list, the characters of a
  string, the keys of a dictionary; \<open>None\<close>, a bool and an int raise \<open>TypeError\<close>.
\<close>

definition py_iter :: "env \<Rightarrow> pyval \<Rightarrow> exn + pyval list" where
  "py_iter env v =
     (case v of
        PList xs \<Rightarrow> Inr xs
      | PStr s \<Rightarrow> Inr (map (\<lambda>c. PStr [c]) s)
      | PDict kvs \<Rightarrow> Inr (map fst kvs)
      | PObj c fs \<Rightarrow> iter_object env v
      | _ \<Rightarrow> Inl (Exn TypeError ([CHR 0x27] @ type_name v @ [CHR 0x27] @ '' object is not iterable'')))"

section \<open>on_create and on_destroy\<close>

text \<open>
  A handler returns \<open>Inr\<close> of its dictionary, or \<open>Inl\<close> of the exception that
  leaves it. The body of a \<^verbatim>\<open>try\<close> is a function of its own, and the handler is
  the case distinction on what the body did.
\<close>

definition status :: "string \<Rightarrow> pyval" where
  "status m = PDict [(PStr ''status'', PStr m)]"

definition on_create_try :: "pydict \<Rightarrow> exn + pyval" where
  "on_create_try data = Inr (status ''initialized'')"

definition on_create :: "pydict \<Rightarrow> exn + pyval" where
  "on_create data =
     (case on_create_try data of
        Inr r \<Rightarrow> Inr r
      | Inl e \<Rightarrow> Inr (status (''Error '' @ exc_str e)))"

definition on_destroy :: "exn + pyval" where
  "on_destroy = Inr (status ''destroyed'')"

section \<open>on_receive\<close>

text \<open>
  Lines 39 to 49: the dataset is read as JSON; when that raises \<open>JSONDecodeError\<close> or
  \<open>TypeError\<close> it is read as the path of a CSV file; a dataset that is \<open>None\<close>
  is refused.
\<close>

definition load_dataset :: "env \<Rightarrow> pyval \<Rightarrow> exn + pyval" where
  "load_dataset env analysis_data_string =
     (case
        (case json_loads env analysis_data_string of
           Inr v \<Rightarrow> Inr v
         | Inl e \<Rightarrow>
             if exc_class_of e = JSONDecodeError \<or> exc_class_of e = TypeError then
               (case Path env analysis_data_string of
                  Inl e1 \<Rightarrow> Inl e1
                | Inr analysis_data_path \<Rightarrow>
                    (case path_exists env analysis_data_path of
                       Inl e2 \<Rightarrow> Inl e2
                     | Inr b \<Rightarrow>
                         if b then read_csv env analysis_data_path
                         else Inl (Exn ValueError ''Invalid data path or data format.'')))
             else Inl e)
      of
        Inl e \<Rightarrow> Inl e
      | Inr analysis_data \<Rightarrow>
          if analysis_data = PNone then Inl (Exn ValueError ''No data provided for analysis.'')
          else Inr analysis_data)"

text \<open>Lines 52 to 55.\<close>

definition parse_graph_edges :: "env \<Rightarrow> pyval \<Rightarrow> exn + pyval" where
  "parse_graph_edges env analysis_graph_edges_string =
     (if analysis_graph_edges_string \<noteq> PNone then json_loads env analysis_graph_edges_string
      else Inl (Exn ValueError ''No graph edges provided for analysis.''))"

text \<open>
  Lines 68 to 93, the body of the inner \<^verbatim>\<open>try\<close>: the dictionary it appends, or
  the exception of the first call that raises.
\<close>

definition estimate_pair ::
  "env \<Rightarrow> pyval \<Rightarrow> pyval \<Rightarrow> pyval \<Rightarrow> pyval \<Rightarrow> pyval \<Rightarrow> exn + pyval" where
  "estimate_pair env analysis_data analysis_graph analysis_method treatment outcome =
     (case CausalModel env analysis_data analysis_graph treatment outcome of
        Inl e \<Rightarrow> Inl e
      | Inr causal_model \<Rightarrow>
     (case identify_effect env causal_model (PBool True) of
        Inl e \<Rightarrow> Inl e
      | Inr identified_estimand \<Rightarrow>
     (case estimate_effect env causal_model identified_estimand analysis_method (PInt 0) (PInt 1) of
        Inl e \<Rightarrow> Inl e
      | Inr causal_estimate \<Rightarrow>
     (case estimate_value env causal_estimate of
        Inl e \<Rightarrow> Inl e
      | Inr v \<Rightarrow>
     (case estimate_str env causal_estimate of
        Inl e \<Rightarrow> Inl e
      | Inr s \<Rightarrow>
          Inr (PDict [(PStr ''treatment'', treatment),
                      (PStr ''outcome'', outcome),
                      (PStr ''estimate'', v),
                      (PStr ''method'', analysis_method),
                      (PStr ''interpretation'', PStr s)]))))))"

text \<open>
  Line 95, in the handler of the inner \<^verbatim>\<open>try\<close>: the f-string puts a string as it
  is, and the string form of the exception; then the line is printed. Formatting and
  printing can each raise.
\<close>

definition py_format :: "env \<Rightarrow> pyval \<Rightarrow> exn + string" where
  "py_format env v = (case v of PStr s \<Rightarrow> Inr s | _ \<Rightarrow> format_object env v)"

definition error_line :: "env \<Rightarrow> pyval \<Rightarrow> pyval \<Rightarrow> exn \<Rightarrow> exn + string" where
  "error_line env treatment outcome e =
     (case py_format env treatment of
        Inl e1 \<Rightarrow> Inl e1
      | Inr t \<Rightarrow>
     (case py_format env outcome of
        Inl e2 \<Rightarrow> Inl e2
      | Inr y \<Rightarrow>
          Inr (''Error estimating effect for treatment '' @ t @ '' and outcome '' @ y
               @ '': '' @ exc_str e)))"

text \<open>
  Lines 66 to 100: the inner \<^verbatim>\<open>try\<close> with its handler. The handler prints its
  line first and appends its record after; an exception of the print is inside no
  \<^verbatim>\<open>try\<close> but the outer one, so it leaves both loops and nothing is appended.
  The value is the dictionary that is appended to \<open>effect_data\<close>.
\<close>

definition pair_entry ::
  "env \<Rightarrow> pyval \<Rightarrow> pyval \<Rightarrow> pyval \<Rightarrow> pyval \<Rightarrow> pyval \<Rightarrow> exn + pyval" where
  "pair_entry env analysis_data analysis_graph analysis_method treatment outcome =
     (case estimate_pair env analysis_data analysis_graph analysis_method treatment outcome of
        Inr entry \<Rightarrow> Inr entry
      | Inl e \<Rightarrow>
     (case error_line env treatment outcome e of
        Inl e1 \<Rightarrow> Inl e1
      | Inr line \<Rightarrow>
     (case print_line env line of
        Inl e2 \<Rightarrow> Inl e2
      | Inr u \<Rightarrow>
          Inr (PDict [(PStr ''treatment'', treatment),
                      (PStr ''outcome'', outcome),
                      (PStr ''error'', PStr (exc_str e))]))))"

text \<open>Whether line 95 returns for a pair whose estimation raised \<open>e\<close>.\<close>

definition report_printed :: "env \<Rightarrow> pyval \<Rightarrow> pyval \<Rightarrow> exn \<Rightarrow> bool" where
  "report_printed env treatment outcome e =
     (case error_line env treatment outcome e of
        Inl e1 \<Rightarrow> False
      | Inr line \<Rightarrow> (case print_line env line of Inl e2 \<Rightarrow> False | Inr u \<Rightarrow> True))"

text \<open>The inner loop (line 65) over the outcomes, \<open>effect_data\<close> threaded through.\<close>

fun outcomes_loop ::
  "env \<Rightarrow> pyval \<Rightarrow> pyval \<Rightarrow> pyval \<Rightarrow> pyval \<Rightarrow> pyval list \<Rightarrow> pyval list \<Rightarrow> exn + pyval list" where
  "outcomes_loop env d g m treatment [] effect_data = Inr effect_data"
| "outcomes_loop env d g m treatment (outcome # rest) effect_data =
     (case pair_entry env d g m treatment outcome of
        Inl e \<Rightarrow> Inl e
      | Inr entry \<Rightarrow> outcomes_loop env d g m treatment rest (effect_data @ [entry]))"

text \<open>
  The outer loop (line 64). Each round starts the inner \<^verbatim>\<open>for\<close>, which is where
  \<open>analysis_outcomes\<close> is asked for its elements: with no treatment it never is.
\<close>

fun treatments_loop ::
  "env \<Rightarrow> pyval \<Rightarrow> pyval \<Rightarrow> pyval \<Rightarrow> pyval list \<Rightarrow> pyval \<Rightarrow> pyval list \<Rightarrow> exn + pyval list" where
  "treatments_loop env d g m [] analysis_outcomes effect_data = Inr effect_data"
| "treatments_loop env d g m (treatment # rest) analysis_outcomes effect_data =
     (case py_iter env analysis_outcomes of
        Inl e \<Rightarrow> Inl e
      | Inr outcomes \<Rightarrow>
     (case outcomes_loop env d g m treatment outcomes effect_data of
        Inl e \<Rightarrow> Inl e
      | Inr effect_data1 \<Rightarrow>
          treatments_loop env d g m rest analysis_outcomes effect_data1))"

text \<open>Lines 33 to 108: everything before the \<^verbatim>\<open>return\<close>, up to \<open>result\<close>.\<close>

definition on_receive_result :: "env \<Rightarrow> pydict \<Rightarrow> exn + pyval" where
  "on_receive_result env data =
     (let analysis_data_string = py_get data ''dataset'';
          analysis_graph_edges_string = py_get data ''graph_edges'';
          analysis_method = py_get data ''method'';
          analysis_treatments = py_get data ''treatment'';
          analysis_outcomes = py_get data ''outcome''
      in
     (case load_dataset env analysis_data_string of
        Inl e \<Rightarrow> Inl e
      | Inr analysis_data \<Rightarrow>
     (case parse_graph_edges env analysis_graph_edges_string of
        Inl e \<Rightarrow> Inl e
      | Inr analysis_graph_edges \<Rightarrow>
     (case DiGraph env analysis_graph_edges of
        Inl e \<Rightarrow> Inl e
      | Inr analysis_graph \<Rightarrow>
     (case py_iter env analysis_treatments of
        Inl e \<Rightarrow> Inl e
      | Inr treatments \<Rightarrow>
     (case treatments_loop env analysis_data analysis_graph analysis_method
             treatments analysis_outcomes [] of
        Inl e \<Rightarrow> Inl e
      | Inr effect_data \<Rightarrow>
          Inr (PDict [(PStr ''causal_effects'', PList effect_data),
                      (PStr ''graph_edges'', analysis_graph_edges),
                      (PStr ''treatments'', analysis_treatments),
                      (PStr ''outcomes'', analysis_outcomes)])))))))"

text \<open>Lines 32 to 110, the body of the outer \<^verbatim>\<open>try\<close>.\<close>

definition on_receive_try :: "env \<Rightarrow> pydict \<Rightarrow> exn + pyval" where
  "on_receive_try env data =
     (case on_receive_result env data of
        Inl e \<Rightarrow> Inl e
      | Inr result \<Rightarrow>
          (case json_dumps env result of
             Inl e \<Rightarrow> Inl e
           | Inr s \<Rightarrow> Inr (PDict [(PStr ''result'', PStr s)])))"

definition on_receive :: "env \<Rightarrow> pydict \<Rightarrow> exn + pyval" where
  "on_receive env data =
     (case on_receive_try env data of
        Inr r \<Rightarrow> Inr r
      | Inl e \<Rightarrow> Inr (status (''Error '' @ exc_str e)))"

section \<open>Reading a response\<close>

text \<open>The keys of a dictionary in order, and the value it holds under a string key.\<close>

fun keys_of :: "pyval \<Rightarrow> pyval list option" where
  "keys_of (PDict kvs) = Some (map fst kvs)"
| "keys_of v = None"

fun entry_field :: "pyval \<Rightarrow> string \<Rightarrow> pyval option" where
  "entry_field (PDict kvs) k = map_of kvs (PStr k)"
| "entry_field v k = None"

text \<open>A response \<open>{"status": m}\<close> whose \<open>m\<close> starts with \<open>Error\<close> and a space.\<close>

definition is_error_status :: "exn + pyval \<Rightarrow> bool" where
  "is_error_status r =
     (case r of
        Inl e \<Rightarrow> False
      | Inr v \<Rightarrow>
          (case v of
             PDict kvs \<Rightarrow>
               (case kvs of
                  [(k, PStr m)] \<Rightarrow> k = PStr ''status'' \<and> take 6 m = ''Error ''
                | _ \<Rightarrow> False)
           | _ \<Rightarrow> False))"

text \<open>Whether a value names an existing file: \<^verbatim>\<open>pathlib.Path(s).exists()\<close> is true.\<close>

definition is_existing_file :: "env \<Rightarrow> pyval \<Rightarrow> bool" where
  "is_existing_file env s =
     (case Path env s of
        Inl e \<Rightarrow> False
      | Inr p \<Rightarrow> (case path_exists env p of Inl e \<Rightarrow> False | Inr b \<Rightarrow> b))"

section \<open>A small world to run the handlers in\<close>

text \<open>
  Concrete runs need concrete libraries. \<open>demo_env\<close> is a stand-in with one file,
  \<^verbatim>\<open>data.csv\<close>, holding the columns x, y and z; a JSON reader that knows four
  documents and rejects every other string; a JSON writer for the built-in values
  (strings are escaped for the double quote and the backslash only); a file system
  that refuses a name of more than 255 characters, as \<^verbatim>\<open>exists()\<close> does with
  \<open>OSError\<close>; a causal model that accepts a treatment and an outcome that are
  columns of a DataFrame; and a standard output that takes every line. It is used
  at inputs where the real libraries answer alike.
\<close>

definition quoted :: "string \<Rightarrow> string" where
  "quoted s = [CHR 0x22] @ concat (map (\<lambda>c. if c = CHR 0x22 \<or> c = CHR 0x5C then [CHR 0x5C, c] else [c]) s) @ [CHR 0x22]"

fun digits :: "nat \<Rightarrow> string" where
  "digits n = (if n < 10 then [char_of (48 + n)] else digits (n div 10) @ [char_of (48 + n mod 10)])"

declare digits.simps [simp del]

fun demo_dumps :: "pyval \<Rightarrow> exn + string"
  and demo_dumps_items :: "pyval list \<Rightarrow> exn + string"
  and demo_dumps_members :: "pydict \<Rightarrow> exn + string" where
  "demo_dumps PNone = Inr ''null''"
| "demo_dumps (PBool b) = Inr (if b then ''true'' else ''false'')"
| "demo_dumps (PInt i) = Inr ((if i < 0 then ''-'' else []) @ digits (nat \<bar>i\<bar>))"
| "demo_dumps (PStr s) = Inr (quoted s)"
| "demo_dumps (PList xs) =
     (case demo_dumps_items xs of Inl e \<Rightarrow> Inl e | Inr s \<Rightarrow> Inr (''['' @ s @ '']''))"
| "demo_dumps (PDict kvs) =
     (case demo_dumps_members kvs of Inl e \<Rightarrow> Inl e | Inr s \<Rightarrow> Inr (''{'' @ s @ ''}''))"
| "demo_dumps (PObj c fs) =
     Inl (Exn TypeError (''Object of type '' @ c @ '' is not JSON serializable''))"
| "demo_dumps_items [] = Inr []"
| "demo_dumps_items [x] = demo_dumps x"
| "demo_dumps_items (x # y # ys) =
     (case demo_dumps x of
        Inl e \<Rightarrow> Inl e
      | Inr s \<Rightarrow>
          (case demo_dumps_items (y # ys) of Inl e \<Rightarrow> Inl e | Inr r \<Rightarrow> Inr (s @ '', '' @ r)))"
| "demo_dumps_members [] = Inr []"
| "demo_dumps_members [(k, v)] =
     (case k of
        PStr s \<Rightarrow>
          (case demo_dumps v of Inl e \<Rightarrow> Inl e | Inr r \<Rightarrow> Inr (quoted s @ '': '' @ r))
      | _ \<Rightarrow>
          Inl (Exn TypeError (''keys must be str, int, float, bool or None, not '' @ type_name k)))"
| "demo_dumps_members ((k, v) # kv # kvs) =
     (case demo_dumps_members [(k, v)] of
        Inl e \<Rightarrow> Inl e
      | Inr s \<Rightarrow>
          (case demo_dumps_members (kv # kvs) of Inl e \<Rightarrow> Inl e | Inr r \<Rightarrow> Inr (s @ '', '' @ r)))"

definition demo_edges_json :: string where
  "demo_edges_json = ''[['' @ quoted ''x'' @ '', '' @ quoted ''y'' @ '']]''"

definition demo_loads :: "pyval \<Rightarrow> exn + pyval" where
  "demo_loads v =
     (case v of
        PStr s \<Rightarrow>
          if s = ''null'' then Inr PNone
          else if s = ''[]'' then Inr (PList [])
          else if s = ''{}'' then Inr (PDict [])
          else if s = demo_edges_json then Inr (PList [PList [PStr ''x'', PStr ''y'']])
          else Inl (Exn JSONDecodeError ''Expecting value: line 1 column 1 (char 0)'')
      | _ \<Rightarrow>
          Inl (Exn TypeError
                (''the JSON object must be str, bytes or bytearray, not '' @ type_name v)))"

definition demo_file :: pyval where
  "demo_file = PObj ''PosixPath'' [PStr ''data.csv'']"

fun demo_exists :: "pyval \<Rightarrow> exn + bool" where
  "demo_exists (PObj c [PStr s]) =
     (if 255 < length s
      then Inl (Exn (OtherException ''OSError'')
                 (''[Errno 36] File name too long: '' @ [CHR 0x27] @ s @ [CHR 0x27]))
      else Inr (PObj c [PStr s] = demo_file))"
| "demo_exists p = Inr False"

definition demo_frame :: pyval where
  "demo_frame = PObj ''DataFrame'' [PStr ''x'', PStr ''y'', PStr ''z'']"

definition demo_model :: "pyval \<Rightarrow> pyval \<Rightarrow> pyval \<Rightarrow> pyval \<Rightarrow> exn + pyval" where
  "demo_model d g t y =
     (case d of
        PObj c cols \<Rightarrow>
          if c = ''DataFrame'' \<and> t \<in> set cols \<and> y \<in> set cols
          then Inr (PObj ''CausalModel'' [t, y])
          else Inl (Exn ValueError ''treatment or outcome is not a column of the data'')
      | _ \<Rightarrow> Inl (Exn (OtherException ''AttributeError'') ''the data has no columns''))"

definition demo_env :: env where
  "demo_env =
     \<lparr> json_loads = demo_loads,
       json_dumps = demo_dumps,
       Path = (\<lambda>v. case v of
                 PStr s \<Rightarrow> Inr (PObj ''PosixPath'' [PStr s])
               | _ \<Rightarrow> Inl (Exn TypeError
                          (''expected str, bytes or os.PathLike object, not '' @ type_name v))),
       path_exists = demo_exists,
       read_csv = (\<lambda>p. if p = demo_file then Inr demo_frame
                        else Inl (Exn (OtherException ''FileNotFoundError'') ''No such file or directory'')),
       DiGraph = (\<lambda>edges. Inr (PObj ''DiGraph'' [edges])),
       CausalModel = demo_model,
       identify_effect = (\<lambda>model flag. Inr (PObj ''IdentifiedEstimand'' [model])),
       estimate_effect = (\<lambda>model estimand method_name control treated.
                            Inr (PObj ''CausalEstimate'' [model, method_name])),
       estimate_value = (\<lambda>estimate. Inr (PInt 2)),
       estimate_str = (\<lambda>estimate. Inr ''*** Causal Estimate ***''),
       iter_object = (\<lambda>v. case v of
                        PObj c fs \<Rightarrow>
                          if c = ''set'' then Inr fs
                          else Inl (Exn TypeError ([CHR 0x27] @ c @ [CHR 0x27] @ '' object is not iterable''))
                      | _ \<Rightarrow> Inl (Exn TypeError ''object is not iterable'')),
       format_object = (\<lambda>v. Inr (''<'' @ type_name v @ '' object>'')),
       print_line = (\<lambda>line. Inr ()) \<rparr>"

text \<open>The same world with its standard output closed: every \<^verbatim>\<open>print\<close> raises.\<close>

definition demo_closed_env :: env where
  "demo_closed_env =
     demo_env \<lparr> print_line := (\<lambda>line. Inl (Exn ValueError ''I/O operation on closed file.'')) \<rparr>"

text \<open>
  The task of the source's example, cut down: two treatments, of which \<open>w\<close> is not a
  column of the data, and one outcome.
\<close>

definition demo_task :: pydict where
  "demo_task =
     [(PStr ''dataset'', PStr ''data.csv''),
      (PStr ''graph_edges'', PStr demo_edges_json),
      (PStr ''method'', PStr ''backdoor.linear_regression''),
      (PStr ''treatment'', PList [PStr ''x'', PStr ''w'']),
      (PStr ''outcome'', PList [PStr ''y''])]"

text \<open>The same task for the treatment \<open>x\<close> alone, whose pair is estimated.\<close>

definition demo_task_x :: pydict where
  "demo_task_x =
     [(PStr ''dataset'', PStr ''data.csv''),
      (PStr ''graph_edges'', PStr demo_edges_json),
      (PStr ''method'', PStr ''backdoor.linear_regression''),
      (PStr ''treatment'', PList [PStr ''x'']),
      (PStr ''outcome'', PList [PStr ''y''])]"

text \<open>A dataset string of 300 characters: no JSON document, and too long for a file name.\<close>

definition demo_long_name :: string where
  "demo_long_name = replicate 300 (CHR ''a'')"

section \<open>Properties of on_create and on_destroy\<close>

text \<open>
  C5. For every input dictionary, the empty one included, \<open>on_create\<close> returns
  exactly \<open>{"status": "initialized"}\<close>, and the body of its \<^verbatim>\<open>try\<close> never raises,
  so its \<^verbatim>\<open>except\<close> branch is never taken.
\<close>

theorem on_create_initialized:
  "on_create data = Inr (PDict [(PStr ''status'', PStr ''initialized'')])
   \<and> \<not> isl (on_create_try data)"
  by (simp add: on_create_def on_create_try_def status_def)

theorem on_create_initialized_witness:
  "on_create [] = Inr (PDict [(PStr ''status'', PStr ''initialized'')])
   \<and> on_create demo_task = Inr (PDict [(PStr ''status'', PStr ''initialized'')])
   \<and> \<not> isl (on_create_try [])"
  using on_create_initialized [of "[]"] on_create_initialized [of demo_task] by simp

text \<open>
  C6. \<open>on_destroy\<close> takes no argument and returns exactly
  \<open>{"status": "destroyed"}\<close>.
\<close>

theorem on_destroy_destroyed:
  "on_destroy = Inr (PDict [(PStr ''status'', PStr ''destroyed'')])"
  by (simp add: on_destroy_def status_def)

section \<open>The loops of on_receive\<close>

text \<open>
  When the loops return, \<open>effect_data\<close> has grown by one entry for each pair, in
  nested-loop order, the order of \<open>List.product\<close>: each entry is the one its
  pair's \<^verbatim>\<open>try\<close> and handler returned. When \<open>analysis_outcomes\<close> cannot be
  iterated, the first round of the outer loop raises.
\<close>

lemma list_all2_map_eq:
  "list_all2 (\<lambda>p x. f x = h p) ps xs \<Longrightarrow> map f xs = map h ps"
  by (induction rule: list_all2_induct) simp_all

lemma list_all2_setD:
  "list_all2 P ps xs \<Longrightarrow> x \<in> set xs \<Longrightarrow> \<exists>p \<in> set ps. P p x"
  by (induction rule: list_all2_induct) auto

lemma py_iter_list: "py_iter env (PList xs) = Inr xs"
  by (simp add: py_iter_def)

lemma outcomes_loop_returned:
  assumes "outcomes_loop env d g m t ys acc = Inr r"
  shows "\<exists>entries. r = acc @ entries
           \<and> list_all2 (\<lambda>y x. pair_entry env d g m t y = Inr x) ys entries"
  using assms
proof (induction ys arbitrary: acc)
  case Nil
  then show ?case by simp
next
  case (Cons y ys)
  from Cons.prems obtain x where x: "pair_entry env d g m t y = Inr x"
    and rest: "outcomes_loop env d g m t ys (acc @ [x]) = Inr r"
    by (auto split: sum.splits)
  from Cons.IH [OF rest] obtain entries where
    "r = (acc @ [x]) @ entries"
    "list_all2 (\<lambda>y x. pair_entry env d g m t y = Inr x) ys entries"
    by blast
  with x have "r = acc @ (x # entries)
      \<and> list_all2 (\<lambda>y x. pair_entry env d g m t y = Inr x) (y # ys) (x # entries)"
    by simp
  then show ?case by blast
qed

lemma treatments_loop_returned:
  assumes "py_iter env ov = Inr ys"
      and "treatments_loop env d g m ts ov acc = Inr r"
  shows "\<exists>entries. r = acc @ entries
           \<and> list_all2 (\<lambda>p x. pair_entry env d g m (fst p) (snd p) = Inr x)
                (List.product ts ys) entries"
  using assms(2)
proof (induction ts arbitrary: acc)
  case Nil
  then show ?case by simp
next
  case (Cons t ts)
  from Cons.prems assms(1) obtain acc1 where
    inner: "outcomes_loop env d g m t ys acc = Inr acc1"
    and rest: "treatments_loop env d g m ts ov acc1 = Inr r"
    by (auto split: sum.splits)
  from outcomes_loop_returned [OF inner] obtain es1 where
    es1: "acc1 = acc @ es1" "list_all2 (\<lambda>y x. pair_entry env d g m t y = Inr x) ys es1"
    by blast
  from Cons.IH [OF rest] obtain es2 where
    es2: "r = acc1 @ es2"
         "list_all2 (\<lambda>p x. pair_entry env d g m (fst p) (snd p) = Inr x)
            (List.product ts ys) es2"
    by blast
  from es1(2) have
    "list_all2 (\<lambda>p x. pair_entry env d g m (fst p) (snd p) = Inr x) (map (Pair t) ys) es1"
    by (simp add: list_all2_map1)
  with es2(2) have
    "list_all2 (\<lambda>p x. pair_entry env d g m (fst p) (snd p) = Inr x)
       (List.product (t # ts) ys) (es1 @ es2)"
    by (simp add: list_all2_appendI)
  moreover from es1(1) es2(1) have "r = acc @ (es1 @ es2)" by simp
  ultimately show ?case by blast
qed

lemma treatments_loop_raises:
  assumes "py_iter env ov = Inl e"
  shows "treatments_loop env d g m ts ov acc = (if ts = [] then Inr acc else Inl e)"
  using assms by (cases ts) simp_all

text \<open>
  What a pair leaves in \<open>effect_data\<close>, and when its handler returns: always
  after an estimate, and after a failure when the print of line 95 returns.
\<close>

lemma pair_entry_returned:
  assumes "pair_entry env d g m t y = Inr x"
  shows "keys_of x = Some [PStr ''treatment'', PStr ''outcome'', PStr ''estimate'',
                           PStr ''method'', PStr ''interpretation'']
       \<or> keys_of x = Some [PStr ''treatment'', PStr ''outcome'', PStr ''error'']"
    and "entry_field x ''treatment'' = Some t"
    and "entry_field x ''outcome'' = Some y"
  using assms
  by (auto simp: pair_entry_def estimate_pair_def split: sum.splits)

lemma pair_entry_failed:
  assumes "estimate_pair env d g m t y = Inl e"
      and "report_printed env t y e"
  shows "pair_entry env d g m t y =
           Inr (PDict [(PStr ''treatment'', t), (PStr ''outcome'', y),
                       (PStr ''error'', PStr (exc_str e))])"
  using assms
  by (auto simp: pair_entry_def report_printed_def split: sum.splits)

lemma pair_entry_runs:
  assumes "\<forall>e. estimate_pair env d g m t y = Inl e \<longrightarrow> report_printed env t y e"
  shows "\<not> isl (pair_entry env d g m t y)"
proof (cases "estimate_pair env d g m t y")
  case (Inl e)
  with assms have "report_printed env t y e" by simp
  from pair_entry_failed [OF Inl this] show ?thesis by simp
next
  case (Inr x)
  then show ?thesis by (simp add: pair_entry_def)
qed

lemma outcomes_loop_runs:
  assumes "\<forall>y \<in> set ys. \<not> isl (pair_entry env d g m t y)"
  shows "outcomes_loop env d g m t ys acc =
           Inr (acc @ map (\<lambda>y. projr (pair_entry env d g m t y)) ys)"
  using assms
proof (induction ys arbitrary: acc)
  case Nil
  then show ?case by simp
next
  case (Cons y ys)
  then obtain x where "pair_entry env d g m t y = Inr x"
    by (cases "pair_entry env d g m t y") auto
  with Cons show ?case by simp
qed

lemma treatments_loop_runs:
  assumes "py_iter env ov = Inr ys"
      and "\<forall>t \<in> set ts. \<forall>y \<in> set ys. \<not> isl (pair_entry env d g m t y)"
  shows "treatments_loop env d g m ts ov acc =
           Inr (acc @ map (\<lambda>(t, y). projr (pair_entry env d g m t y)) (List.product ts ys))"
  using assms(2)
proof (induction ts arbitrary: acc)
  case Nil
  then show ?case by simp
next
  case (Cons t ts)
  then show ?case
    by (simp add: assms(1) outcomes_loop_runs comp_def)
qed

text \<open>
  How a response comes about: a result is the serialization of what the body built,
  and the body builds it from the loaded dataset, the parsed edges and the loops.
\<close>

lemma on_receive_success:
  assumes "on_receive env data = Inr (PDict [(PStr ''result'', PStr s)])"
  shows "\<exists>r. on_receive_result env data = Inr r \<and> json_dumps env r = Inr s"
  using assms
  by (auto simp: on_receive_def on_receive_try_def status_def split: sum.splits)

lemma on_receive_result_success:
  assumes "on_receive_result env data = Inr r"
  shows "\<exists>d ge g ts effect_data.
           load_dataset env (py_get data ''dataset'') = Inr d
         \<and> parse_graph_edges env (py_get data ''graph_edges'') = Inr ge
         \<and> DiGraph env ge = Inr g
         \<and> py_iter env (py_get data ''treatment'') = Inr ts
         \<and> treatments_loop env d g (py_get data ''method'') ts (py_get data ''outcome'') [] = Inr effect_data
         \<and> r = PDict [(PStr ''causal_effects'', PList effect_data),
                      (PStr ''graph_edges'', ge),
                      (PStr ''treatments'', py_get data ''treatment''),
                      (PStr ''outcomes'', py_get data ''outcome'')]"
  using assms
  by (auto simp: on_receive_result_def Let_def split: sum.splits)

lemma on_receive_result_reached:
  assumes "load_dataset env (py_get data ''dataset'') = Inr d"
      and "parse_graph_edges env (py_get data ''graph_edges'') = Inr ge"
      and "DiGraph env ge = Inr g"
      and "py_iter env (py_get data ''treatment'') = Inr ts"
      and "py_iter env (py_get data ''outcome'') = Inr ys"
      and "\<forall>t \<in> set ts. \<forall>y \<in> set ys. \<not> isl (pair_entry env d g (py_get data ''method'') t y)"
  shows "on_receive_result env data =
           Inr (PDict [(PStr ''causal_effects'',
                          PList (map (\<lambda>(t, y). projr (pair_entry env d g (py_get data ''method'') t y))
                                   (List.product ts ys))),
                       (PStr ''graph_edges'', ge),
                       (PStr ''treatments'', py_get data ''treatment''),
                       (PStr ''outcomes'', py_get data ''outcome'')])"
  using assms(1-5)
  by (simp add: on_receive_result_def Let_def treatments_loop_runs [OF assms(5) assms(6)])

lemma on_receive_load_fails:
  "load_dataset env (py_get data ''dataset'') = Inl e \<Longrightarrow>
   on_receive env data = Inr (status (''Error '' @ exc_str e))"
  by (simp add: on_receive_def on_receive_try_def on_receive_result_def Let_def)

lemma is_error_status_status: "is_error_status (Inr (status (''Error '' @ m)))"
  by (simp add: is_error_status_def status_def)

lemma load_dataset_rejected:
  assumes "isl (json_loads env v)"
      and "\<not> is_existing_file env v"
  shows "isl (load_dataset env v)"
  using assms
  by (auto simp: load_dataset_def is_existing_file_def isl_def split: sum.splits)

lemma load_dataset_no_path:
  assumes "isl (json_loads env v)"
      and "isl (Path env v)"
  shows "isl (load_dataset env v)"
  using assms
  by (auto simp: load_dataset_def isl_def split: sum.splits)

lemma load_fails_error_status:
  assumes "isl (load_dataset env (py_get data ''dataset''))"
  shows "is_error_status (on_receive env data)"
proof -
  from assms obtain e where "load_dataset env (py_get data ''dataset'') = Inl e"
    by (auto simp: isl_def)
  from on_receive_load_fails [OF this] show ?thesis
    by (simp only: is_error_status_status)
qed

lemma div_mod_row:
  "j < (n :: nat) \<Longrightarrow> (i * n + j) div n = i"
  "j < (n :: nat) \<Longrightarrow> (i * n + j) mod n = j"
  by simp_all

lemma pair_index:
  assumes "i < length (T :: 'a list)" and "j < length (Ys :: 'b list)"
  shows "i * length Ys + j < length T * length Ys"
    and "List.product T Ys ! (i * length Ys + j) = (T ! i, Ys ! j)"
proof -
  have "i * length Ys + j < Suc i * length Ys" using assms(2) by simp
  also have "\<dots> \<le> length T * length Ys"
    using assms(1) by (intro mult_le_mono1) simp
  finally show lt: "i * length Ys + j < length T * length Ys" .
  have "(i * length Ys + j) div length Ys = i" and "(i * length Ys + j) mod length Ys = j"
    using assms(2) by (rule div_mod_row)+
  with lt show "List.product T Ys ! (i * length Ys + j) = (T ! i, Ys ! j)"
    by (simp only: product_nth)
qed

section \<open>Runs in the small world\<close>

lemma demo_load: "load_dataset demo_env (PStr ''data.csv'') = Inr demo_frame"
  by (simp add: load_dataset_def demo_env_def demo_loads_def demo_file_def demo_frame_def
      demo_edges_json_def quoted_def)

lemma demo_load_missing:
  "load_dataset demo_env (PStr ''nope.csv'') =
     Inl (Exn ValueError ''Invalid data path or data format.'')"
  by (simp add: load_dataset_def demo_env_def demo_loads_def demo_file_def
      demo_edges_json_def quoted_def)

lemma demo_graph_edges:
  "parse_graph_edges demo_env (PStr demo_edges_json) = Inr (PList [PList [PStr ''x'', PStr ''y'']])"
  by (simp add: parse_graph_edges_def demo_env_def demo_loads_def demo_edges_json_def quoted_def)

lemma demo_DiGraph: "DiGraph demo_env v = Inr (PObj ''DiGraph'' [v])"
  by (simp add: demo_env_def)

lemma demo_pair_ok:
  "estimate_pair demo_env demo_frame g m (PStr ''x'') (PStr ''y'') =
     Inr (PDict [(PStr ''treatment'', PStr ''x''), (PStr ''outcome'', PStr ''y''),
                 (PStr ''estimate'', PInt 2), (PStr ''method'', m),
                 (PStr ''interpretation'', PStr ''*** Causal Estimate ***'')])"
  by (simp add: estimate_pair_def demo_env_def demo_model_def demo_frame_def)

lemma demo_pair_fails:
  "estimate_pair demo_env demo_frame g m (PStr ''w'') (PStr ''y'') =
     Inl (Exn ValueError ''treatment or outcome is not a column of the data'')"
  by (simp add: estimate_pair_def demo_env_def demo_model_def demo_frame_def)

lemma demo_task_fields:
  "py_get demo_task ''dataset'' = PStr ''data.csv''"
  "py_get demo_task ''graph_edges'' = PStr demo_edges_json"
  "py_get demo_task ''method'' = PStr ''backdoor.linear_regression''"
  "py_get demo_task ''treatment'' = PList [PStr ''x'', PStr ''w'']"
  "py_get demo_task ''outcome'' = PList [PStr ''y'']"
  by (simp_all add: demo_task_def py_get_def)

lemma demo_report_printed: "report_printed demo_env (PStr t) (PStr y) e"
  by (simp add: report_printed_def error_line_def py_format_def demo_env_def)

lemma demo_pair_entry_ok:
  "pair_entry demo_env demo_frame g m (PStr ''x'') (PStr ''y'') =
     Inr (PDict [(PStr ''treatment'', PStr ''x''), (PStr ''outcome'', PStr ''y''),
                 (PStr ''estimate'', PInt 2), (PStr ''method'', m),
                 (PStr ''interpretation'', PStr ''*** Causal Estimate ***'')])"
  by (simp add: pair_entry_def demo_pair_ok)

lemma demo_pair_entry_fails:
  "pair_entry demo_env demo_frame g m (PStr ''w'') (PStr ''y'') =
     Inr (PDict [(PStr ''treatment'', PStr ''w''), (PStr ''outcome'', PStr ''y''),
                 (PStr ''error'', PStr ''treatment or outcome is not a column of the data'')])"
  using pair_entry_failed [OF demo_pair_fails demo_report_printed] by simp

lemma demo_result:
  "on_receive_result demo_env demo_task =
     Inr (PDict [(PStr ''causal_effects'',
                    PList [PDict [(PStr ''treatment'', PStr ''x''), (PStr ''outcome'', PStr ''y''),
                                  (PStr ''estimate'', PInt 2),
                                  (PStr ''method'', PStr ''backdoor.linear_regression''),
                                  (PStr ''interpretation'', PStr ''*** Causal Estimate ***'')],
                           PDict [(PStr ''treatment'', PStr ''w''), (PStr ''outcome'', PStr ''y''),
                                  (PStr ''error'',
                                   PStr ''treatment or outcome is not a column of the data'')]]),
                 (PStr ''graph_edges'', PList [PList [PStr ''x'', PStr ''y'']]),
                 (PStr ''treatments'', PList [PStr ''x'', PStr ''w'']),
                 (PStr ''outcomes'', PList [PStr ''y''])])"
  by (simp add: on_receive_result_def demo_task_fields demo_load demo_graph_edges demo_DiGraph
      py_iter_list demo_pair_entry_ok demo_pair_entry_fails)

lemma demo_response:
  "\<exists>s. on_receive demo_env demo_task = Inr (PDict [(PStr ''result'', PStr s)])"
  by (simp add: on_receive_def on_receive_try_def demo_result)
     (simp add: demo_env_def quoted_def digits.simps)

text \<open>
  With the standard output closed, everything but the print answers as before.
\<close>

lemma demo_closed_fields:
  "load_dataset demo_closed_env v = load_dataset demo_env v"
  "parse_graph_edges demo_closed_env v = parse_graph_edges demo_env v"
  "DiGraph demo_closed_env = DiGraph demo_env"
  "py_iter demo_closed_env v = py_iter demo_env v"
  "estimate_pair demo_closed_env d g m t y = estimate_pair demo_env d g m t y"
  "json_dumps demo_closed_env = json_dumps demo_env"
  "error_line demo_closed_env t y e = error_line demo_env t y e"
  "print_line demo_closed_env line = Inl (Exn ValueError ''I/O operation on closed file.'')"
  by (simp_all add: error_line_def py_format_def add: demo_closed_env_def load_dataset_def parse_graph_edges_def py_iter_def
      estimate_pair_def split: sum.splits pyval.splits)

lemma demo_closed_pair_entry_ok:
  "pair_entry demo_closed_env demo_frame g m (PStr ''x'') (PStr ''y'') =
     Inr (PDict [(PStr ''treatment'', PStr ''x''), (PStr ''outcome'', PStr ''y''),
                 (PStr ''estimate'', PInt 2), (PStr ''method'', m),
                 (PStr ''interpretation'', PStr ''*** Causal Estimate ***'')])"
  by (simp add: pair_entry_def demo_closed_fields demo_pair_ok)

lemma demo_closed_pair_entry_raises:
  "pair_entry demo_closed_env demo_frame g m (PStr ''w'') (PStr ''y'') =
     Inl (Exn ValueError ''I/O operation on closed file.'')"
  by (simp add: pair_entry_def demo_closed_fields demo_pair_fails error_line_def py_format_def)

lemma demo_task_x_fields:
  "py_get demo_task_x ''dataset'' = PStr ''data.csv''"
  "py_get demo_task_x ''graph_edges'' = PStr demo_edges_json"
  "py_get demo_task_x ''method'' = PStr ''backdoor.linear_regression''"
  "py_get demo_task_x ''treatment'' = PList [PStr ''x'']"
  "py_get demo_task_x ''outcome'' = PList [PStr ''y'']"
  by (simp_all add: demo_task_x_def py_get_def)

lemma demo_closed_response:
  "on_receive demo_closed_env demo_task =
     Inr (PDict [(PStr ''status'', PStr ''Error I/O operation on closed file.'')])"
  by (simp add: on_receive_def on_receive_try_def on_receive_result_def demo_task_fields
      demo_closed_fields demo_load demo_graph_edges demo_DiGraph py_iter_list
      demo_closed_pair_entry_ok demo_closed_pair_entry_raises status_def)

lemma demo_closed_response_x:
  "\<exists>s. on_receive demo_closed_env demo_task_x = Inr (PDict [(PStr ''result'', PStr s)])"
  by (simp add: on_receive_def on_receive_try_def on_receive_result_def demo_task_x_fields
      demo_closed_fields demo_load demo_graph_edges demo_DiGraph py_iter_list
      demo_closed_pair_entry_ok)
     (simp add: demo_env_def quoted_def digits.simps)

text \<open>
  The long name is no JSON document, and asking whether it exists raises.
\<close>

lemma demo_long_name_rejected:
  "json_loads demo_env (PStr demo_long_name) =
     Inl (Exn JSONDecodeError ''Expecting value: line 1 column 1 (char 0)'')"
proof -
  have "length demo_long_name = 300" by (simp add: demo_long_name_def)
  then have other: "\<And>t. length t \<noteq> 300 \<Longrightarrow> demo_long_name \<noteq> t"
    by blast
  have "demo_long_name \<noteq> ''null''" "demo_long_name \<noteq> ''[]''" "demo_long_name \<noteq> ''{}''"
    "demo_long_name \<noteq> demo_edges_json"
    by (rule other, simp add: demo_edges_json_def quoted_def)+
  then show ?thesis by (simp add: demo_env_def demo_loads_def)
qed

lemma demo_long_name_exists:
  "Path demo_env (PStr demo_long_name) = Inr (PObj ''PosixPath'' [PStr demo_long_name])"
  "path_exists demo_env (PObj ''PosixPath'' [PStr demo_long_name]) =
     Inl (Exn (OtherException ''OSError'')
           (''[Errno 36] File name too long: '' @ [CHR 0x27] @ demo_long_name @ [CHR 0x27]))"
proof -
  have "length demo_long_name = 300" by (simp add: demo_long_name_def)
  then show "path_exists demo_env (PObj ''PosixPath'' [PStr demo_long_name]) =
     Inl (Exn (OtherException ''OSError'')
           (''[Errno 36] File name too long: '' @ [CHR 0x27] @ demo_long_name @ [CHR 0x27]))"
    by (simp add: demo_env_def)
qed (simp add: demo_env_def)

lemma demo_long_name_load:
  "load_dataset demo_env (PStr demo_long_name) =
     Inl (Exn (OtherException ''OSError'')
           (''[Errno 36] File name too long: '' @ [CHR 0x27] @ demo_long_name @ [CHR 0x27]))"
  by (simp add: load_dataset_def demo_long_name_rejected demo_long_name_exists)

section \<open>Properties of on_receive\<close>

text \<open>
  C3. For every input dictionary \<open>on_receive\<close> returns and does not raise. What
  it returns has one of two shapes: \<open>{"result": s}\<close>, where \<open>s\<close> is the string
  \<^verbatim>\<open>json.dumps\<close> made of the result the body built; or, when an exception \<open>e\<close>
  leaves the body of the \<^verbatim>\<open>try\<close>, \<open>{"status": m}\<close>, where \<open>m\<close> is
  \<open>Error\<close>, a space and \<open>str(e)\<close>. It never holds both keys.
\<close>

theorem on_receive_two_shapes:
  "((\<exists>r s. on_receive_result env data = Inr r \<and> json_dumps env r = Inr s
          \<and> on_receive env data = Inr (PDict [(PStr ''result'', PStr s)]))
    \<or> (\<exists>e. on_receive_try env data = Inl e
          \<and> on_receive env data = Inr (PDict [(PStr ''status'', PStr (''Error '' @ exc_str e))])))
   \<and> (\<exists>r. on_receive env data = Inr r
          \<and> \<not> (entry_field r ''result'' \<noteq> None \<and> entry_field r ''status'' \<noteq> None))"
  by (auto simp: on_receive_def on_receive_try_def status_def split: sum.splits)

theorem on_receive_two_shapes_witness:
  "(\<exists>s. on_receive demo_env demo_task = Inr (PDict [(PStr ''result'', PStr s)]))
   \<and> on_receive_try demo_env [] =
       Inl (Exn TypeError ''expected str, bytes or os.PathLike object, not NoneType'')
   \<and> on_receive demo_env [] =
       Inr (PDict [(PStr ''status'',
                    PStr ''Error expected str, bytes or os.PathLike object, not NoneType'')])"
proof -
  have "on_receive_try demo_env [] =
          Inl (Exn TypeError ''expected str, bytes or os.PathLike object, not NoneType'')"
    by (simp add: on_receive_try_def on_receive_result_def py_get_def load_dataset_def
        demo_env_def demo_loads_def)
  note t = this
  have returns: "\<And>r s. on_receive_result demo_env [] = Inr r \<Longrightarrow>
                   json_dumps demo_env r = Inr s \<Longrightarrow>
                   on_receive_try demo_env [] = Inr (PDict [(PStr ''result'', PStr s)])"
    by (simp add: on_receive_try_def)
  from on_receive_two_shapes [of demo_env "[]"] t returns
  have "on_receive demo_env [] =
          Inr (PDict [(PStr ''status'',
                       PStr ''Error expected str, bytes or os.PathLike object, not NoneType'')])"
    by fastforce
  with t demo_response show ?thesis by blast
qed

text \<open>
  C1. Let the input's \<open>treatment\<close> be a list \<open>T\<close> and its \<open>outcome\<close> a
  list \<open>Ys\<close>, and let \<open>on_receive\<close> return \<open>{"result": s}\<close>. Then \<open>s\<close>
  is the serialization of a result whose \<open>causal_effects\<close> list has
  \<open>len(T) * len(Ys)\<close> entries, one for each pair in nested-loop order (each
  treatment in order, and for it each outcome in order), and each entry holds its
  pair's treatment under \<open>treatment\<close> and its outcome under \<open>outcome\<close>. The
  parsed result is read as the dictionary that was serialized.
\<close>

theorem causal_effects_cover_pairs:
  assumes "py_get data ''treatment'' = PList T"
      and "py_get data ''outcome'' = PList Ys"
      and "on_receive env data = Inr (PDict [(PStr ''result'', PStr s)])"
  shows "\<exists>effect_data ge.
           on_receive_result env data =
             Inr (PDict [(PStr ''causal_effects'', PList effect_data),
                         (PStr ''graph_edges'', ge),
                         (PStr ''treatments'', PList T),
                         (PStr ''outcomes'', PList Ys)])
         \<and> json_dumps env (PDict [(PStr ''causal_effects'', PList effect_data),
                                  (PStr ''graph_edges'', ge),
                                  (PStr ''treatments'', PList T),
                                  (PStr ''outcomes'', PList Ys)]) = Inr s
         \<and> length effect_data = length T * length Ys
         \<and> map (\<lambda>x. (entry_field x ''treatment'', entry_field x ''outcome'')) effect_data =
             map (\<lambda>(t, y). (Some t, Some y)) (List.product T Ys)"
proof -
  from assms(3) obtain r where r: "on_receive_result env data = Inr r"
    and s: "json_dumps env r = Inr s"
    using on_receive_success by blast
  from on_receive_result_success [OF r] obtain d ge g ts effect_data where
    loop: "treatments_loop env d g (py_get data ''method'') ts (py_get data ''outcome'') [] =
             Inr effect_data"
    and ts: "py_iter env (py_get data ''treatment'') = Inr ts"
    and shape: "r = PDict [(PStr ''causal_effects'', PList effect_data),
                           (PStr ''graph_edges'', ge),
                           (PStr ''treatments'', py_get data ''treatment''),
                           (PStr ''outcomes'', py_get data ''outcome'')]"
    by blast
  from ts assms(1) have T: "ts = T" by (simp add: py_iter_list)
  have "py_iter env (py_get data ''outcome'') = Inr Ys"
    by (simp add: assms(2) py_iter_list)
  from treatments_loop_returned [OF this loop]
  have entries: "list_all2 (\<lambda>p x. pair_entry env d g (py_get data ''method'') (fst p) (snd p) = Inr x)
                   (List.product T Ys) effect_data"
    by (simp add: T)
  then have "list_all2
               (\<lambda>p x. (entry_field x ''treatment'', entry_field x ''outcome'') =
                       (Some (fst p), Some (snd p)))
               (List.product T Ys) effect_data"
    by (rule list_all2_mono) (simp add: pair_entry_returned)
  from list_all2_map_eq [OF this]
  have names: "map (\<lambda>x. (entry_field x ''treatment'', entry_field x ''outcome'')) effect_data =
                 map (\<lambda>(t, y). (Some t, Some y)) (List.product T Ys)"
    by (simp add: case_prod_unfold)
  from entries have len: "length effect_data = length T * length Ys"
    by (simp add: list_all2_lengthD [symmetric])
  from r s shape names len show ?thesis
    by (simp add: assms(1) assms(2))
qed

theorem causal_effects_cover_pairs_witness:
  "py_get demo_task ''treatment'' = PList [PStr ''x'', PStr ''w'']
   \<and> py_get demo_task ''outcome'' = PList [PStr ''y'']
   \<and> (\<exists>s effect_data.
         on_receive demo_env demo_task = Inr (PDict [(PStr ''result'', PStr s)])
       \<and> on_receive_result demo_env demo_task =
           Inr (PDict [(PStr ''causal_effects'', PList effect_data),
                       (PStr ''graph_edges'', PList [PList [PStr ''x'', PStr ''y'']]),
                       (PStr ''treatments'', PList [PStr ''x'', PStr ''w'']),
                       (PStr ''outcomes'', PList [PStr ''y''])])
       \<and> length effect_data = 2
       \<and> map (\<lambda>x. (entry_field x ''treatment'', entry_field x ''outcome'')) effect_data =
           [(Some (PStr ''x''), Some (PStr ''y'')), (Some (PStr ''w''), Some (PStr ''y''))])"
proof -
  obtain s where s: "on_receive demo_env demo_task = Inr (PDict [(PStr ''result'', PStr s)])"
    using demo_response by blast
  from causal_effects_cover_pairs [OF demo_task_fields(4) demo_task_fields(5) s]
  show ?thesis
    using s by (auto simp: demo_task_fields demo_result)
qed

text \<open>
  C10. In a successful result every entry of \<open>causal_effects\<close> is a dictionary
  whose keys are \<open>treatment\<close> and \<open>outcome\<close> followed either by \<open>estimate\<close>,
  \<open>method\<close> and \<open>interpretation\<close>, or by \<open>error\<close> alone; no entry mixes
  the two.
\<close>

theorem causal_effect_entry_shapes:
  assumes "on_receive env data = Inr (PDict [(PStr ''result'', PStr s)])"
  shows "\<exists>effect_data rest.
           on_receive_result env data =
             Inr (PDict ((PStr ''causal_effects'', PList effect_data) # rest))
         \<and> json_dumps env (PDict ((PStr ''causal_effects'', PList effect_data) # rest)) = Inr s
         \<and> (\<forall>x \<in> set effect_data.
               keys_of x = Some [PStr ''treatment'', PStr ''outcome'', PStr ''estimate'',
                                 PStr ''method'', PStr ''interpretation'']
             \<or> keys_of x = Some [PStr ''treatment'', PStr ''outcome'', PStr ''error''])"
proof -
  from assms obtain r where r: "on_receive_result env data = Inr r"
    and s: "json_dumps env r = Inr s"
    using on_receive_success by blast
  from on_receive_result_success [OF r] obtain d ge g ts effect_data where
    loop: "treatments_loop env d g (py_get data ''method'') ts (py_get data ''outcome'') [] =
             Inr effect_data"
    and shape: "r = PDict [(PStr ''causal_effects'', PList effect_data),
                           (PStr ''graph_edges'', ge),
                           (PStr ''treatments'', py_get data ''treatment''),
                           (PStr ''outcomes'', py_get data ''outcome'')]"
    by blast
  have "\<forall>x \<in> set effect_data.
               keys_of x = Some [PStr ''treatment'', PStr ''outcome'', PStr ''estimate'',
                                 PStr ''method'', PStr ''interpretation'']
             \<or> keys_of x = Some [PStr ''treatment'', PStr ''outcome'', PStr ''error'']"
  proof (cases "py_iter env (py_get data ''outcome'')")
    case (Inl e)
    from treatments_loop_raises [OF this, of d g "py_get data ''method''" ts "[]"] loop
    have "effect_data = []" by (simp split: if_splits)
    then show ?thesis by simp
  next
    case (Inr ys)
    from treatments_loop_returned [OF this loop]
    have entries: "list_all2
                     (\<lambda>p x. pair_entry env d g (py_get data ''method'') (fst p) (snd p) = Inr x)
                     (List.product ts ys) effect_data"
      by simp
    show ?thesis
    proof
      fix x assume "x \<in> set effect_data"
      from list_all2_setD [OF entries this] obtain p where
        "pair_entry env d g (py_get data ''method'') (fst p) (snd p) = Inr x"
        by blast
      then show "keys_of x = Some [PStr ''treatment'', PStr ''outcome'', PStr ''estimate'',
                                   PStr ''method'', PStr ''interpretation'']
               \<or> keys_of x = Some [PStr ''treatment'', PStr ''outcome'', PStr ''error'']"
        by (rule pair_entry_returned(1))
    qed
  qed
  with r s shape show ?thesis by blast
qed

theorem causal_effect_entry_shapes_witness:
  "\<exists>s. on_receive demo_env demo_task = Inr (PDict [(PStr ''result'', PStr s)])
      \<and> (\<exists>effect_data rest.
            on_receive_result demo_env demo_task =
              Inr (PDict ((PStr ''causal_effects'', PList effect_data) # rest))
          \<and> map keys_of effect_data =
              [Some [PStr ''treatment'', PStr ''outcome'', PStr ''estimate'', PStr ''method'',
                     PStr ''interpretation''],
               Some [PStr ''treatment'', PStr ''outcome'', PStr ''error'']])"
proof -
  obtain s where s: "on_receive demo_env demo_task = Inr (PDict [(PStr ''result'', PStr s)])"
    using demo_response by blast
  from causal_effect_entry_shapes [OF s]
  show ?thesis
    using s by (auto simp: demo_result)
qed

text \<open>
  C4. On success the string under \<open>result\<close> is the serialization of a dictionary
  with exactly the keys \<open>causal_effects\<close>, \<open>graph_edges\<close>, \<open>treatments\<close> and
  \<open>outcomes\<close>, where \<open>graph_edges\<close> is what \<^verbatim>\<open>json.loads\<close> made of the
  input's \<open>graph_edges\<close>, and \<open>treatments\<close> and \<open>outcomes\<close> are the input's
  \<open>treatment\<close> and \<open>outcome\<close> as they came.
\<close>

theorem result_dictionary_contents:
  assumes "on_receive env data = Inr (PDict [(PStr ''result'', PStr s)])"
  shows "\<exists>effect_data ge.
           json_loads env (py_get data ''graph_edges'') = Inr ge
         \<and> on_receive_result env data =
             Inr (PDict [(PStr ''causal_effects'', PList effect_data),
                         (PStr ''graph_edges'', ge),
                         (PStr ''treatments'', py_get data ''treatment''),
                         (PStr ''outcomes'', py_get data ''outcome'')])
         \<and> json_dumps env (PDict [(PStr ''causal_effects'', PList effect_data),
                                  (PStr ''graph_edges'', ge),
                                  (PStr ''treatments'', py_get data ''treatment''),
                                  (PStr ''outcomes'', py_get data ''outcome'')]) = Inr s"
proof -
  from assms obtain r where r: "on_receive_result env data = Inr r"
    and s: "json_dumps env r = Inr s"
    using on_receive_success by blast
  from on_receive_result_success [OF r] obtain ge effect_data where
    ge: "parse_graph_edges env (py_get data ''graph_edges'') = Inr ge"
    and shape: "r = PDict [(PStr ''causal_effects'', PList effect_data),
                           (PStr ''graph_edges'', ge),
                           (PStr ''treatments'', py_get data ''treatment''),
                           (PStr ''outcomes'', py_get data ''outcome'')]"
    by blast
  from ge have "json_loads env (py_get data ''graph_edges'') = Inr ge"
    by (simp add: parse_graph_edges_def split: if_splits)
  with r s shape show ?thesis by blast
qed

theorem result_dictionary_contents_witness:
  "\<exists>s effect_data.
      on_receive demo_env demo_task = Inr (PDict [(PStr ''result'', PStr s)])
    \<and> json_loads demo_env (py_get demo_task ''graph_edges'') =
        Inr (PList [PList [PStr ''x'', PStr ''y'']])
    \<and> json_dumps demo_env
        (PDict [(PStr ''causal_effects'', PList effect_data),
                (PStr ''graph_edges'', PList [PList [PStr ''x'', PStr ''y'']]),
                (PStr ''treatments'', PList [PStr ''x'', PStr ''w'']),
                (PStr ''outcomes'', PList [PStr ''y''])]) = Inr s"
proof -
  obtain s where s: "on_receive demo_env demo_task = Inr (PDict [(PStr ''result'', PStr s)])"
    using demo_response by blast
  from result_dictionary_contents [OF s]
  show ?thesis
    using s by (auto simp: demo_result demo_task_fields)
qed

text \<open>
  C2, as stated: when the estimation of one pair raises, a record is appended for the
  pair, the remaining pairs are processed, and the call returns the result dictionary.
  The handler prints before it appends, and the print is inside the outer \<^verbatim>\<open>try\<close>
  only. In the small world with its standard output closed the pair of \<open>w\<close> and
  \<open>y\<close> fails, the print raises, and the call returns an error status; the same
  call for \<open>x\<close> alone, whose pair is estimated, returns a result.
\<close>

theorem pair_failure_counterexample:
  "load_dataset demo_closed_env (py_get demo_task ''dataset'') = Inr demo_frame
   \<and> py_iter demo_closed_env (py_get demo_task ''treatment'') = Inr [PStr ''x'', PStr ''w'']
   \<and> py_iter demo_closed_env (py_get demo_task ''outcome'') = Inr [PStr ''y'']
   \<and> estimate_pair demo_closed_env demo_frame
        (PObj ''DiGraph'' [PList [PList [PStr ''x'', PStr ''y'']]])
        (py_get demo_task ''method'') (PStr ''w'') (PStr ''y'') =
       Inl (Exn ValueError ''treatment or outcome is not a column of the data'')
   \<and> on_receive demo_closed_env demo_task =
       Inr (PDict [(PStr ''status'', PStr ''Error I/O operation on closed file.'')])
   \<and> (\<exists>s. on_receive demo_closed_env demo_task_x = Inr (PDict [(PStr ''result'', PStr s)]))"
  by (simp add: demo_closed_fields demo_task_fields demo_load py_iter_list demo_pair_fails
      demo_closed_response demo_closed_response_x)

text \<open>
  C2, amended. Let the dataset, the graph edges and the graph be built, let the
  treatments be \<open>T\<close> and the outcomes \<open>Ys\<close>, and let the print of line 95 return
  for every pair whose estimation raises. When the estimation of the pair
  \<open>(T[i], Ys[j])\<close> raises \<open>e\<close> (in building the model, identifying the effect,
  estimating it or reading the estimate), the loops still run over every pair:
  \<open>effect_data\<close> has one entry for each, in order, and the entry of this pair is the
  record with the keys \<open>treatment\<close>, \<open>outcome\<close> and \<open>error\<close>, the error
  being \<open>str(e)\<close>. The call returns \<open>{"result": s}\<close> when \<^verbatim>\<open>json.dumps\<close> of
  the result returns \<open>s\<close>, and an error status only when that \<^verbatim>\<open>json.dumps\<close>
  raises.
\<close>

theorem pair_failure_is_recorded:
  assumes "load_dataset env (py_get data ''dataset'') = Inr d"
      and "parse_graph_edges env (py_get data ''graph_edges'') = Inr ge"
      and "DiGraph env ge = Inr g"
      and "py_iter env (py_get data ''treatment'') = Inr T"
      and "py_iter env (py_get data ''outcome'') = Inr Ys"
      and "i < length T" and "j < length Ys"
      and "estimate_pair env d g (py_get data ''method'') (T ! i) (Ys ! j) = Inl e"
      and "\<forall>t \<in> set T. \<forall>y \<in> set Ys. \<forall>e1.
             estimate_pair env d g (py_get data ''method'') t y = Inl e1
             \<longrightarrow> report_printed env t y e1"
  shows "\<exists>effect_data result.
           result = PDict [(PStr ''causal_effects'', PList effect_data),
                           (PStr ''graph_edges'', ge),
                           (PStr ''treatments'', py_get data ''treatment''),
                           (PStr ''outcomes'', py_get data ''outcome'')]
         \<and> on_receive_result env data = Inr result
         \<and> list_all2 (\<lambda>p x. pair_entry env d g (py_get data ''method'') (fst p) (snd p) = Inr x)
             (List.product T Ys) effect_data
         \<and> length effect_data = length T * length Ys
         \<and> effect_data ! (i * length Ys + j) =
             PDict [(PStr ''treatment'', T ! i), (PStr ''outcome'', Ys ! j),
                    (PStr ''error'', PStr (exc_str e))]
         \<and> on_receive env data =
             (case json_dumps env result of
                Inr s \<Rightarrow> Inr (PDict [(PStr ''result'', PStr s)])
              | Inl e2 \<Rightarrow> Inr (PDict [(PStr ''status'', PStr (''Error '' @ exc_str e2))]))"
proof -
  let ?m = "py_get data ''method''"
  define effect_data where
    "effect_data = map (\<lambda>(t, y). projr (pair_entry env d g ?m t y)) (List.product T Ys)"
  define result where
    "result = PDict [(PStr ''causal_effects'', PList effect_data),
                     (PStr ''graph_edges'', ge),
                     (PStr ''treatments'', py_get data ''treatment''),
                     (PStr ''outcomes'', py_get data ''outcome'')]"
  have runs: "\<forall>t \<in> set T. \<forall>y \<in> set Ys. \<not> isl (pair_entry env d g ?m t y)"
  proof (intro ballI)
    fix t y assume "t \<in> set T" and "y \<in> set Ys"
    with assms(9) have "\<forall>e1. estimate_pair env d g ?m t y = Inl e1 \<longrightarrow> report_printed env t y e1"
      by blast
    then show "\<not> isl (pair_entry env d g ?m t y)" by (rule pair_entry_runs)
  qed
  have r: "on_receive_result env data = Inr result"
    unfolding result_def effect_data_def
    by (rule on_receive_result_reached [OF assms(1-5) runs])
  have entries:
    "list_all2 (\<lambda>p x. pair_entry env d g ?m (fst p) (snd p) = Inr x)
       (List.product T Ys) effect_data"
    using runs
    by (auto simp: effect_data_def list_all2_map2 case_prod_unfold list_all2_same)
  have len: "length effect_data = length T * length Ys"
    by (simp add: effect_data_def)
  have ti: "T ! i \<in> set T" and yj: "Ys ! j \<in> set Ys"
    using assms(6,7) by simp_all
  with assms(8,9) have "report_printed env (T ! i) (Ys ! j) e" by blast
  from pair_entry_failed [OF assms(8) this]
  have "projr (pair_entry env d g ?m (T ! i) (Ys ! j)) =
          PDict [(PStr ''treatment'', T ! i), (PStr ''outcome'', Ys ! j),
                 (PStr ''error'', PStr (exc_str e))]"
    by simp
  with pair_index [OF assms(6,7)]
  have entry: "effect_data ! (i * length Ys + j) =
             PDict [(PStr ''treatment'', T ! i), (PStr ''outcome'', Ys ! j),
                    (PStr ''error'', PStr (exc_str e))]"
    by (simp add: effect_data_def)
  have resp: "on_receive env data =
             (case json_dumps env result of
                Inr s \<Rightarrow> Inr (PDict [(PStr ''result'', PStr s)])
              | Inl e2 \<Rightarrow> Inr (PDict [(PStr ''status'', PStr (''Error '' @ exc_str e2))]))"
    by (simp add: on_receive_def on_receive_try_def r status_def split: sum.splits)
  from r entries len entry resp show ?thesis
    using result_def by blast
qed

theorem pair_failure_is_recorded_witness:
  "load_dataset demo_env (py_get demo_task ''dataset'') = Inr demo_frame
   \<and> parse_graph_edges demo_env (py_get demo_task ''graph_edges'') =
       Inr (PList [PList [PStr ''x'', PStr ''y'']])
   \<and> py_iter demo_env (py_get demo_task ''treatment'') = Inr [PStr ''x'', PStr ''w'']
   \<and> py_iter demo_env (py_get demo_task ''outcome'') = Inr [PStr ''y'']
   \<and> estimate_pair demo_env demo_frame (PObj ''DiGraph'' [PList [PList [PStr ''x'', PStr ''y'']]])
        (py_get demo_task ''method'') ([PStr ''x'', PStr ''w''] ! 1) ([PStr ''y''] ! 0) =
       Inl (Exn ValueError ''treatment or outcome is not a column of the data'')
   \<and> report_printed demo_env (PStr ''w'') (PStr ''y'')
        (Exn ValueError ''treatment or outcome is not a column of the data'')
   \<and> (\<exists>effect_data s.
         on_receive_result demo_env demo_task =
           Inr (PDict [(PStr ''causal_effects'', PList effect_data),
                       (PStr ''graph_edges'', PList [PList [PStr ''x'', PStr ''y'']]),
                       (PStr ''treatments'', PList [PStr ''x'', PStr ''w'']),
                       (PStr ''outcomes'', PList [PStr ''y''])])
       \<and> length effect_data = 2
       \<and> effect_data ! 1 =
           PDict [(PStr ''treatment'', PStr ''w''), (PStr ''outcome'', PStr ''y''),
                  (PStr ''error'', PStr ''treatment or outcome is not a column of the data'')]
       \<and> on_receive demo_env demo_task = Inr (PDict [(PStr ''result'', PStr s)]))"
proof -
  let ?g = "PObj ''DiGraph'' [PList [PList [PStr ''x'', PStr ''y'']]]"
  have h1: "load_dataset demo_env (py_get demo_task ''dataset'') = Inr demo_frame"
    by (simp add: demo_task_fields demo_load)
  have h2: "parse_graph_edges demo_env (py_get demo_task ''graph_edges'') =
              Inr (PList [PList [PStr ''x'', PStr ''y'']])"
    by (simp add: demo_task_fields demo_graph_edges)
  have h3: "DiGraph demo_env (PList [PList [PStr ''x'', PStr ''y'']]) = Inr ?g"
    by (rule demo_DiGraph)
  have h4: "py_iter demo_env (py_get demo_task ''treatment'') = Inr [PStr ''x'', PStr ''w'']"
    by (simp add: demo_task_fields py_iter_list)
  have h5: "py_iter demo_env (py_get demo_task ''outcome'') = Inr [PStr ''y'']"
    by (simp add: demo_task_fields py_iter_list)
  have h6: "1 < length [PStr ''x'', PStr ''w'']" and h7: "0 < length [PStr ''y'']"
    by simp_all
  have h8: "estimate_pair demo_env demo_frame ?g
              (py_get demo_task ''method'') ([PStr ''x'', PStr ''w''] ! 1) ([PStr ''y''] ! 0) =
            Inl (Exn ValueError ''treatment or outcome is not a column of the data'')"
    by (simp add: demo_pair_fails)
  have h9: "\<forall>t \<in> set [PStr ''x'', PStr ''w'']. \<forall>y \<in> set [PStr ''y'']. \<forall>e1.
              estimate_pair demo_env demo_frame ?g (py_get demo_task ''method'') t y = Inl e1
              \<longrightarrow> report_printed demo_env t y e1"
    by (simp add: demo_report_printed)
  obtain s where s: "on_receive demo_env demo_task = Inr (PDict [(PStr ''result'', PStr s)])"
    using demo_response by blast
  from pair_failure_is_recorded [OF h1 h2 h3 h4 h5 h6 h7 h8 h9]
  obtain effect_data where
    r: "on_receive_result demo_env demo_task =
          Inr (PDict [(PStr ''causal_effects'', PList effect_data),
                      (PStr ''graph_edges'', PList [PList [PStr ''x'', PStr ''y'']]),
                      (PStr ''treatments'', py_get demo_task ''treatment''),
                      (PStr ''outcomes'', py_get demo_task ''outcome'')])"
    and len: "length effect_data = length [PStr ''x'', PStr ''w''] * length [PStr ''y'']"
    and entry: "effect_data ! (1 * length [PStr ''y''] + 0) =
                  PDict [(PStr ''treatment'', [PStr ''x'', PStr ''w''] ! 1),
                         (PStr ''outcome'', [PStr ''y''] ! 0),
                         (PStr ''error'',
                          PStr (exc_str (Exn ValueError
                                  ''treatment or outcome is not a column of the data'')))]"
    by blast
  from r len entry s have
    "on_receive_result demo_env demo_task =
           Inr (PDict [(PStr ''causal_effects'', PList effect_data),
                       (PStr ''graph_edges'', PList [PList [PStr ''x'', PStr ''y'']]),
                       (PStr ''treatments'', PList [PStr ''x'', PStr ''w'']),
                       (PStr ''outcomes'', PList [PStr ''y''])])
       \<and> length effect_data = 2
       \<and> effect_data ! 1 =
           PDict [(PStr ''treatment'', PStr ''w''), (PStr ''outcome'', PStr ''y''),
                  (PStr ''error'', PStr ''treatment or outcome is not a column of the data'')]
       \<and> on_receive demo_env demo_task = Inr (PDict [(PStr ''result'', PStr s)])"
    by (simp add: demo_task_fields)
  with h1 h2 h4 h5 h8 demo_report_printed show ?thesis by blast
qed

text \<open>
  C8, as stated: a \<open>dataset\<close> string that is neither valid JSON nor the path of an
  existing file gets the status \<open>Error Invalid data path or data format.\<close> The
  source raises that message only after \<^verbatim>\<open>exists()\<close> has returned false. In the
  small world the name of 300 characters is no JSON document and names no file, but
  \<^verbatim>\<open>exists()\<close> raises \<open>OSError\<close> for it, and the status carries that message.
\<close>

theorem dataset_message_counterexample:
  "py_get [(PStr ''dataset'', PStr demo_long_name)] ''dataset'' = PStr demo_long_name
   \<and> isl (json_loads demo_env (PStr demo_long_name))
   \<and> \<not> is_existing_file demo_env (PStr demo_long_name)
   \<and> on_receive demo_env [(PStr ''dataset'', PStr demo_long_name)] =
       Inr (PDict [(PStr ''status'',
                    PStr (''Error [Errno 36] File name too long: ''
                          @ [CHR 0x27] @ demo_long_name @ [CHR 0x27]))])
   \<and> on_receive demo_env [(PStr ''dataset'', PStr demo_long_name)] \<noteq>
       Inr (PDict [(PStr ''status'', PStr ''Error Invalid data path or data format.'')])"
proof -
  have d: "py_get [(PStr ''dataset'', PStr demo_long_name)] ''dataset'' = PStr demo_long_name"
    by (simp add: py_get_def)
  have "load_dataset demo_env (py_get [(PStr ''dataset'', PStr demo_long_name)] ''dataset'') =
          Inl (Exn (OtherException ''OSError'')
                (''[Errno 36] File name too long: '' @ [CHR 0x27] @ demo_long_name @ [CHR 0x27]))"
    by (simp add: d demo_long_name_load)
  from on_receive_load_fails [OF this]
  have r: "on_receive demo_env [(PStr ''dataset'', PStr demo_long_name)] =
       Inr (PDict [(PStr ''status'',
                    PStr (''Error [Errno 36] File name too long: ''
                          @ [CHR 0x27] @ demo_long_name @ [CHR 0x27]))])"
    by (simp add: status_def)
  have n: "\<not> is_existing_file demo_env (PStr demo_long_name)"
    by (simp add: is_existing_file_def demo_long_name_exists)
  from d r n show ?thesis
    by (simp add: demo_long_name_rejected)
qed

text \<open>
  C8, amended. \<^verbatim>\<open>json.loads(None)\<close> and \<^verbatim>\<open>pathlib.Path(None)\<close> raise, as the
  standard library's do. Then an input whose \<open>dataset\<close> is absent or \<open>None\<close>
  gets an error status. So does a \<open>dataset\<close> string that \<^verbatim>\<open>json.loads\<close>
  rejects and that is not the path of an existing file. The status is
  \<open>Error Invalid data path or data format.\<close> when \<^verbatim>\<open>json.loads\<close> raised
  \<open>JSONDecodeError\<close> or \<open>TypeError\<close> and \<^verbatim>\<open>exists()\<close> returned false; when
  \<^verbatim>\<open>exists()\<close> itself raises, the status carries its exception's message. A
  \<open>dataset\<close> string whose JSON value is \<open>null\<close> gets
  \<open>Error No data provided for analysis.\<close> In no case does the call raise.
\<close>

theorem dataset_failures_reported:
  "(py_get data ''dataset'' = PNone \<and> isl (json_loads env PNone) \<and> isl (Path env PNone)
      \<longrightarrow> is_error_status (on_receive env data))
   \<and> (py_get data ''dataset'' = PStr s \<and> isl (json_loads env (PStr s))
        \<and> \<not> is_existing_file env (PStr s)
      \<longrightarrow> is_error_status (on_receive env data))
   \<and> (py_get data ''dataset'' = PStr s \<and> json_loads env (PStr s) = Inl e
        \<and> (exc_class_of e = JSONDecodeError \<or> exc_class_of e = TypeError)
        \<and> Path env (PStr s) = Inr p \<and> path_exists env p = Inr False
      \<longrightarrow> on_receive env data =
            Inr (PDict [(PStr ''status'', PStr ''Error Invalid data path or data format.'')]))
   \<and> (py_get data ''dataset'' = PStr s \<and> json_loads env (PStr s) = Inl e
        \<and> (exc_class_of e = JSONDecodeError \<or> exc_class_of e = TypeError)
        \<and> Path env (PStr s) = Inr p \<and> path_exists env p = Inl e1
      \<longrightarrow> on_receive env data =
            Inr (PDict [(PStr ''status'', PStr (''Error '' @ exc_str e1))]))
   \<and> (py_get data ''dataset'' = PStr s \<and> json_loads env (PStr s) = Inr PNone
      \<longrightarrow> on_receive env data =
            Inr (PDict [(PStr ''status'', PStr ''Error No data provided for analysis.'')]))"
proof (intro conjI impI)
  assume "py_get data ''dataset'' = PNone \<and> isl (json_loads env PNone) \<and> isl (Path env PNone)"
  then have "isl (load_dataset env (py_get data ''dataset''))"
    by (simp add: load_dataset_no_path)
  then show "is_error_status (on_receive env data)" by (rule load_fails_error_status)
next
  assume "py_get data ''dataset'' = PStr s \<and> isl (json_loads env (PStr s))
        \<and> \<not> is_existing_file env (PStr s)"
  then have "isl (load_dataset env (py_get data ''dataset''))"
    by (simp add: load_dataset_rejected)
  then show "is_error_status (on_receive env data)" by (rule load_fails_error_status)
next
  assume "py_get data ''dataset'' = PStr s \<and> json_loads env (PStr s) = Inl e
        \<and> (exc_class_of e = JSONDecodeError \<or> exc_class_of e = TypeError)
        \<and> Path env (PStr s) = Inr p \<and> path_exists env p = Inr False"
  then have "load_dataset env (py_get data ''dataset'') =
               Inl (Exn ValueError ''Invalid data path or data format.'')"
    by (auto simp: load_dataset_def)
  from on_receive_load_fails [OF this]
  show "on_receive env data =
          Inr (PDict [(PStr ''status'', PStr ''Error Invalid data path or data format.'')])"
    by (simp add: status_def)
next
  assume "py_get data ''dataset'' = PStr s \<and> json_loads env (PStr s) = Inl e
        \<and> (exc_class_of e = JSONDecodeError \<or> exc_class_of e = TypeError)
        \<and> Path env (PStr s) = Inr p \<and> path_exists env p = Inl e1"
  then have "load_dataset env (py_get data ''dataset'') = Inl e1"
    by (auto simp: load_dataset_def)
  from on_receive_load_fails [OF this]
  show "on_receive env data = Inr (PDict [(PStr ''status'', PStr (''Error '' @ exc_str e1))])"
    by (simp add: status_def)
next
  assume "py_get data ''dataset'' = PStr s \<and> json_loads env (PStr s) = Inr PNone"
  then have "load_dataset env (py_get data ''dataset'') =
               Inl (Exn ValueError ''No data provided for analysis.'')"
    by (simp add: load_dataset_def)
  from on_receive_load_fails [OF this]
  show "on_receive env data =
          Inr (PDict [(PStr ''status'', PStr ''Error No data provided for analysis.'')])"
    by (simp add: status_def)
qed

theorem dataset_failures_reported_witness:
  "(py_get [] ''dataset'' = PNone \<and> isl (json_loads demo_env PNone) \<and> isl (Path demo_env PNone)
      \<and> is_error_status (on_receive demo_env []))
   \<and> (py_get [(PStr ''dataset'', PStr ''nope.csv'')] ''dataset'' = PStr ''nope.csv''
      \<and> json_loads demo_env (PStr ''nope.csv'') =
          Inl (Exn JSONDecodeError ''Expecting value: line 1 column 1 (char 0)'')
      \<and> \<not> is_existing_file demo_env (PStr ''nope.csv'')
      \<and> Path demo_env (PStr ''nope.csv'') = Inr (PObj ''PosixPath'' [PStr ''nope.csv''])
      \<and> path_exists demo_env (PObj ''PosixPath'' [PStr ''nope.csv'']) = Inr False
      \<and> is_error_status (on_receive demo_env [(PStr ''dataset'', PStr ''nope.csv'')])
      \<and> on_receive demo_env [(PStr ''dataset'', PStr ''nope.csv'')] =
          Inr (PDict [(PStr ''status'', PStr ''Error Invalid data path or data format.'')]))
   \<and> (py_get [(PStr ''dataset'', PStr demo_long_name)] ''dataset'' = PStr demo_long_name
      \<and> json_loads demo_env (PStr demo_long_name) =
          Inl (Exn JSONDecodeError ''Expecting value: line 1 column 1 (char 0)'')
      \<and> Path demo_env (PStr demo_long_name) = Inr (PObj ''PosixPath'' [PStr demo_long_name])
      \<and> path_exists demo_env (PObj ''PosixPath'' [PStr demo_long_name]) =
          Inl (Exn (OtherException ''OSError'')
                (''[Errno 36] File name too long: '' @ [CHR 0x27] @ demo_long_name @ [CHR 0x27]))
      \<and> on_receive demo_env [(PStr ''dataset'', PStr demo_long_name)] =
          Inr (PDict [(PStr ''status'',
                       PStr (''Error [Errno 36] File name too long: ''
                             @ [CHR 0x27] @ demo_long_name @ [CHR 0x27]))]))
   \<and> (py_get [(PStr ''dataset'', PStr ''null'')] ''dataset'' = PStr ''null''
      \<and> json_loads demo_env (PStr ''null'') = Inr PNone
      \<and> on_receive demo_env [(PStr ''dataset'', PStr ''null'')] =
          Inr (PDict [(PStr ''status'', PStr ''Error No data provided for analysis.'')]))"
proof -
  have facts:
    "py_get [] ''dataset'' = PNone"
    "isl (json_loads demo_env PNone)"
    "isl (Path demo_env PNone)"
    "py_get [(PStr ''dataset'', PStr ''nope.csv'')] ''dataset'' = PStr ''nope.csv''"
    "json_loads demo_env (PStr ''nope.csv'') =
       Inl (Exn JSONDecodeError ''Expecting value: line 1 column 1 (char 0)'')"
    "\<not> is_existing_file demo_env (PStr ''nope.csv'')"
    "Path demo_env (PStr ''nope.csv'') = Inr (PObj ''PosixPath'' [PStr ''nope.csv''])"
    "path_exists demo_env (PObj ''PosixPath'' [PStr ''nope.csv'']) = Inr False"
    "py_get [(PStr ''dataset'', PStr ''null'')] ''dataset'' = PStr ''null''"
    "json_loads demo_env (PStr ''null'') = Inr PNone"
    "py_get [(PStr ''dataset'', PStr demo_long_name)] ''dataset'' = PStr demo_long_name"
    by (simp_all add: py_get_def demo_env_def demo_loads_def demo_file_def demo_edges_json_def
        quoted_def is_existing_file_def)
  note long = demo_long_name_rejected demo_long_name_exists
  from facts long
    dataset_failures_reported [where data = "[]" and env = demo_env]
    dataset_failures_reported [where data = "[(PStr ''dataset'', PStr ''nope.csv'')]"
      and env = demo_env and s = "''nope.csv''"
      and e = "Exn JSONDecodeError ''Expecting value: line 1 column 1 (char 0)''"
      and p = "PObj ''PosixPath'' [PStr ''nope.csv'']"]
    dataset_failures_reported [where data = "[(PStr ''dataset'', PStr demo_long_name)]"
      and env = demo_env and s = demo_long_name
      and e = "Exn JSONDecodeError ''Expecting value: line 1 column 1 (char 0)''"
      and p = "PObj ''PosixPath'' [PStr demo_long_name]"
      and ?e1.0 = "Exn (OtherException ''OSError'')
                (''[Errno 36] File name too long: '' @ [CHR 0x27] @ demo_long_name @ [CHR 0x27])"]
    dataset_failures_reported [where data = "[(PStr ''dataset'', PStr ''null'')]"
      and env = demo_env and s = "''null''"]
  show ?thesis by (simp add: is_error_status_def)
qed

text \<open>
  C9, as stated: without \<open>graph_edges\<close> the status is
  \<open>Error No graph edges provided for analysis.\<close> whether or not the dataset was
  loaded. The dataset is loaded first: with a dataset that names no file and no
  \<open>graph_edges\<close>, the status is that of the dataset.
\<close>

theorem missing_graph_edges_counterexample:
  "py_get [(PStr ''dataset'', PStr ''nope.csv'')] ''graph_edges'' = PNone
   \<and> on_receive demo_env [(PStr ''dataset'', PStr ''nope.csv'')] =
       Inr (PDict [(PStr ''status'', PStr ''Error Invalid data path or data format.'')])
   \<and> on_receive demo_env [(PStr ''dataset'', PStr ''nope.csv'')] \<noteq>
       Inr (PDict [(PStr ''status'', PStr ''Error No graph edges provided for analysis.'')])"
  by (simp add: py_get_def on_receive_def on_receive_try_def on_receive_result_def
      demo_load_missing status_def)

text \<open>
  C9, amended. When the input has no \<open>graph_edges\<close> key, or \<open>None\<close> under
  it, \<open>on_receive\<close> returns an error status and no result: the status
  \<open>Error No graph edges provided for analysis.\<close> when the dataset was loaded, and
  the status of the exception that loading the dataset raised otherwise.
\<close>

theorem missing_graph_edges_after_dataset:
  assumes "py_get data ''graph_edges'' = PNone"
  shows "on_receive env data =
           (case load_dataset env (py_get data ''dataset'') of
              Inl e \<Rightarrow> Inr (PDict [(PStr ''status'', PStr (''Error '' @ exc_str e))])
            | Inr analysis_data \<Rightarrow>
                Inr (PDict [(PStr ''status'',
                             PStr ''Error No graph edges provided for analysis.'')]))"
  using assms
  by (simp add: on_receive_def on_receive_try_def on_receive_result_def Let_def
      parse_graph_edges_def status_def split: sum.splits)

theorem missing_graph_edges_after_dataset_witness:
  "py_get [(PStr ''dataset'', PStr ''data.csv'')] ''graph_edges'' = PNone
   \<and> load_dataset demo_env (py_get [(PStr ''dataset'', PStr ''data.csv'')] ''dataset'') =
       Inr demo_frame
   \<and> on_receive demo_env [(PStr ''dataset'', PStr ''data.csv'')] =
       Inr (PDict [(PStr ''status'', PStr ''Error No graph edges provided for analysis.'')])
   \<and> load_dataset demo_env (py_get [(PStr ''dataset'', PStr ''nope.csv'')] ''dataset'') =
       Inl (Exn ValueError ''Invalid data path or data format.'')
   \<and> on_receive demo_env [(PStr ''dataset'', PStr ''nope.csv'')] =
       Inr (PDict [(PStr ''status'', PStr ''Error Invalid data path or data format.'')])"
proof -
  have a: "py_get [(PStr ''dataset'', PStr ''data.csv'')] ''graph_edges'' = PNone"
    and b: "py_get [(PStr ''dataset'', PStr ''nope.csv'')] ''graph_edges'' = PNone"
    and c: "py_get [(PStr ''dataset'', PStr ''data.csv'')] ''dataset'' = PStr ''data.csv''"
    and d: "py_get [(PStr ''dataset'', PStr ''nope.csv'')] ''dataset'' = PStr ''nope.csv''"
    by (simp_all add: py_get_def)
  from missing_graph_edges_after_dataset [OF a, of demo_env]
    missing_graph_edges_after_dataset [OF b, of demo_env]
  show ?thesis
    by (simp add: a c d demo_load demo_load_missing)
qed

end
